theory Spec2Isabelle
  imports Complex_Main "HOL-Library.Word"
begin

section \<open>The command interpreter of the portfolio terminal (src/pages/Index.tsx)\<close>

subsection \<open>JavaScript strings\<close>

text \<open>
  A JavaScript string is a sequence of UTF-16 code units. \<open>lit\<close> embeds an ASCII
  literal; the characters an Isabelle literal cannot hold (quote, backslash, line feed,
  non-ASCII) are written as code units.
\<close>

type_synonym jsstring = "16 word list"

definition lit :: "string \<Rightarrow> jsstring" where
  "lit s = map of_char s"

text \<open>
  The code units that \<open>String.prototype.trim\<close> strips and the regular expression class
  \<open>\s\<close> matches: ECMAScript WhiteSpace (TAB, VT, FF, ZWNBSP and the Unicode space
  separators) and LineTerminator (LF, CR, LS, PS).
\<close>

definition is_ws :: "16 word \<Rightarrow> bool" where
  "is_ws c \<longleftrightarrow>
     c \<in> set [0x09, 0x0A, 0x0B, 0x0C, 0x0D, 0x20, 0xA0, 0x1680,
              0x2028, 0x2029, 0x202F, 0x205F, 0x3000, 0xFEFF]
     \<or> (0x2000 \<le> c \<and> c \<le> 0x200A)"

text \<open>\<open>s.trim()\<close>: whitespace removed at both ends.\<close>

definition rtrim :: "jsstring \<Rightarrow> jsstring" where
  "rtrim s = rev (dropWhile is_ws (rev s))"

definition trim :: "jsstring \<Rightarrow> jsstring" where
  "trim s = rtrim (dropWhile is_ws s)"

text \<open>
  \<open>s.split(/\s+/)\<close>: the pieces of \<open>s\<close> between the maximal runs of whitespace. The
  result is never empty: the empty string gives one empty piece, and a string that
  starts or ends with whitespace gives an empty first or last piece. \<open>split_from cur s\<close>
  is the scan with \<open>cur\<close> the piece read so far.
\<close>

function split_from :: "jsstring \<Rightarrow> jsstring \<Rightarrow> jsstring list" where
  "split_from cur [] = [cur]"
| "split_from cur (c # cs) =
     (if is_ws c then cur # split_from [] (dropWhile is_ws cs)
      else split_from (cur @ [c]) cs)"
  by pat_completeness auto
termination
  by (relation "measure (\<lambda>(cur, s). length s)")
     (auto simp: less_Suc_eq_le length_dropWhile_le)

definition split_ws :: "jsstring \<Rightarrow> jsstring list" where
  "split_ws s = split_from [] s"

text \<open>
  \<open>const [base, arg] = ...\<close>: the first two elements of the array, \<open>None\<close> standing
  for \<open>undefined\<close> where the array is too short.
\<close>

fun destructure2 :: "jsstring list \<Rightarrow> jsstring option \<times> jsstring option" where
  "destructure2 [] = (None, None)"
| "destructure2 [b] = (Some b, None)"
| "destructure2 (b # a # rest) = (Some b, Some a)"

text \<open>A value interpolated into a template literal: \<open>undefined\<close> prints as its name.\<close>

fun interpolate :: "jsstring option \<Rightarrow> jsstring" where
  "interpolate None = lit ''undefined''"
| "interpolate (Some s) = s"

subsection \<open>Constants of the module\<close>

definition TABS :: "jsstring list" where
  "TABS = [lit ''terminal'', lit ''aboutme'', lit ''skills'', lit ''workexperience'',
           lit ''projects'', lit ''contactme'']"

text \<open>
  The own keys of \<open>projectsMeta\<close>. The descriptors stored under them (file, description,
  tools, github) are not read by the interpreter.
\<close>

definition projectsMeta_keys :: "jsstring list" where
  "projectsMeta_keys =
     [lit ''sentiment_analysis'', lit ''airbnb_analysis'', lit ''movie_recommender'']"

text \<open>
  \<open>projectsMeta\<close> is an object literal, so its prototype is \<open>Object.prototype\<close>, and
  the \<open>in\<close> operator also finds the properties inherited from it.
\<close>

definition Object_prototype_keys :: "jsstring list" where
  "Object_prototype_keys =
     [lit ''constructor'', lit ''hasOwnProperty'', lit ''isPrototypeOf'',
      lit ''propertyIsEnumerable'', lit ''toLocaleString'', lit ''toString'',
      lit ''valueOf'', lit ''__proto__'', lit ''__defineGetter__'',
      lit ''__defineSetter__'', lit ''__lookupGetter__'', lit ''__lookupSetter__'']"

text \<open>\<open>arg in projectsMeta\<close>, for a string \<open>arg\<close>.\<close>

definition in_projectsMeta :: "jsstring \<Rightarrow> bool" where
  "in_projectsMeta a \<longleftrightarrow> a \<in> set projectsMeta_keys \<or> a \<in> set Object_prototype_keys"

text \<open>
  \<open>arg && arg in projectsMeta\<close>: \<open>undefined\<close> and the empty string are falsy, so
  the \<open>in\<close> test is made for a non-empty string only.
\<close>

fun arg_in_projectsMeta :: "jsstring option \<Rightarrow> bool" where
  "arg_in_projectsMeta None = False"
| "arg_in_projectsMeta (Some a) = (a \<noteq> [] \<and> in_projectsMeta a)"

definition fortunes :: "jsstring list" where
  "fortunes =
    [lit ''Data is the new oil. '' @ [0xE2, 0x20AC, 0x201C] @ lit '' Clive Humby'',
     lit ''In God we trust. All others must bring data. '' @ [0xE2, 0x20AC, 0x201C]
       @ lit '' W. Edwards Deming'',
     lit ''Without big data, you are blind and deaf. '' @ [0xE2, 0x20AC, 0x201C]
       @ lit '' Geoffrey Moore'',
     lit ''Torture the data, and it will confess to anything. '' @ [0xE2, 0x20AC, 0x201C]
       @ lit '' Ronald Coase'']"

text \<open>
  The template literal \<open>towelArt\<close>: a line feed, then thirteen lines each ended by a
  line feed. \<open>0x27\<close> is the single quote, \<open>0x22\<close> the double quote, \<open>0x5C\<close> the
  backslash (written doubled in the source).
\<close>

definition towelArt :: jsstring where
  "towelArt = [0x0A] @ concat (map (\<lambda>l. l @ [0x0A])
    [lit ''                              _..----.._'',
     lit ''                          _.-'' @ [0x27] @ lit ''          '' @ [0x27] @ lit ''-._'',
     lit ''                       .-'' @ [0x27] @ lit ''    .-''
       @ [0x27, 0x27, 0x22, 0x27, 0x27] @ lit ''-.     '' @ [0x27] @ lit ''-.'',
     lit ''                     .'' @ [0x27] @ lit ''     /__________'' @ [0x5C, 0x5C]
       @ lit ''      '' @ [0x27] @ lit ''.'',
     lit ''                    /      |            |       '' @ [0x5C],
     lit ''                   /       |   ASCII    |        '' @ [0x5C],
     lit ''                   |       |    ART!    |        |'',
     lit ''                   |       '' @ [0x27] @ lit ''------------'' @ [0x27]
       @ lit ''        |'',
     lit ''                   |                              |'',
     lit ''                   |                              |'',
     lit ''                   '' @ [0x27] @ lit ''._      TOWEL.BLINKENLIGHTS   |'',
     lit ''                      '' @ [0x27] @ lit ''-._   .-''
       @ [0x27, 0x27, 0x22, 0x27, 0x27] @ lit ''-.        _.-'' @ [0x27],
     lit ''                          '' @ [0x27] @ lit ''-._'' @ [0x5C, 0x5C]
       @ lit ''______/_..--'' @ [0x27]])"

definition help_text :: jsstring where
  "help_text = lit ''Commands: ls, cd [aboutme|skills|workexperience|projects|contactme], view <project_key>, fortune, telnet [towel.blinkenlights.nl|me], help''"

subsection \<open>State of the component\<close>

text \<open>
  \<open>output\<close> is \<open>string | null\<close> and the two selections are nullable: \<open>None\<close> is
  \<open>null\<close>. The casts \<open>arg as TabType\<close> and \<open>arg as ProjectKey\<close> are erased at run
  time, so \<open>cwd\<close> and \<open>selectedProject\<close> hold whatever string was stored.
\<close>

record HistoryEntry =
  cmd :: jsstring
  "output" :: "jsstring option"

record state =
  cwd :: jsstring
  history :: "HistoryEntry list"
  selectedProject :: "jsstring option"
  selectedWorkFile :: "jsstring option"

text \<open>The values given to \<open>useState\<close>.\<close>

definition initial_state :: state where
  "initial_state = \<lparr>cwd = lit ''terminal'', history = [],
     selectedProject = None, selectedWorkFile = None\<rparr>"

subsection \<open>runCommand\<close>

text \<open>
  \<open>fortunes[Math.floor(Math.random() * fortunes.length)]\<close>, with \<open>rnd\<close> the number
  \<open>Math.random()\<close> returned, which the language promises to lie in \<open>[0, 1)\<close>. The
  product with the length 4, a power of two, is exact in binary floating point, so the
  index is the floor of the real product. An index outside the array reads \<open>undefined\<close>,
  which the scrollback shows like \<open>null\<close>.
\<close>

definition pick_fortune :: "real \<Rightarrow> jsstring option" where
  "pick_fortune rnd =
     (let i = \<lfloor>rnd * real (length fortunes)\<rfloor>
      in if 0 \<le> i \<and> i < int (length fortunes) then Some (fortunes ! nat i) else None)"

text \<open>
  The \<open>switch\<close> on \<open>base\<close> with the assignments each case makes: the state after the
  setters of the case, and the value of \<open>output\<close>.
\<close>

definition dispatch ::
  "real \<Rightarrow> jsstring option \<Rightarrow> jsstring option \<Rightarrow> state \<Rightarrow> state \<times> jsstring option" where
  "dispatch rnd base arg s =
     (if base = Some (lit ''ls'') then (s, None)
      else if base = Some (lit ''cd'') then
        (case arg of
           Some a \<Rightarrow>
             if a \<in> set TABS
             then (s\<lparr>cwd := a, selectedProject := None, selectedWorkFile := None\<rparr>, None)
             else (s, Some (lit ''zsh: no such file or directory: '' @ interpolate arg))
         | None \<Rightarrow> (s, Some (lit ''zsh: no such file or directory: '' @ interpolate arg)))
      else if base = Some (lit ''help'') then (s, Some help_text)
      else if base = Some (lit ''fortune'') then (s, pick_fortune rnd)
      else if base = Some (lit ''telnet'') then
        (if arg = Some (lit ''towel.blinkenlights.nl'') then (s, Some towelArt)
         else if arg = Some (lit ''me'') then
           (s\<lparr>cwd := lit ''contactme'', selectedProject := None, selectedWorkFile := None\<rparr>,
            None)
         else (s, Some (lit ''zsh: could not connect to host: '' @ interpolate arg)))
      else (s, Some (lit ''zsh: command not found: '' @ interpolate base)))"

text \<open>
  \<open>runCommand(cmd)\<close> as a function of the state before the call and of the random
  number. \<open>setHistory\<close> is called with an updater, so the entry is appended to the
  history as it stands.
\<close>

definition runCommand :: "real \<Rightarrow> jsstring \<Rightarrow> state \<Rightarrow> state" where
  "runCommand rnd c s =
     (case destructure2 (split_ws (trim c)) of (base, arg) \<Rightarrow>
        if base = Some (lit ''view'') \<and> arg_in_projectsMeta arg
        then s\<lparr>selectedProject := arg,
               history := history s @ [\<lparr>cmd = c, output = None\<rparr>]\<rparr>
        else (case dispatch rnd base arg s of (s', out) \<Rightarrow>
                s'\<lparr>history := history s' @ [\<lparr>cmd = c, output = out\<rparr>]\<rparr>))"

text \<open>
  \<open>onKeyDown\<close> calls \<open>runCommand\<close> once for each line submitted with Enter;
  \<open>runCommands\<close> runs a sequence of submitted lines, each with the random number
  drawn during its call.
\<close>

fun runCommands :: "(real \<times> jsstring) list \<Rightarrow> state \<Rightarrow> state" where
  "runCommands [] s = s"
| "runCommands ((rnd, c) # rest) s = runCommands rest (runCommand rnd c s)"

section \<open>Properties\<close>

subsection \<open>Literals\<close>

lemma of_char_word_inj: "(of_char c :: 16 word) = of_char d \<longleftrightarrow> c = d"
proof
  assume h: "(of_char c :: 16 word) = of_char d"
  have "unat (of_nat (of_char c) :: 16 word) = unat (of_nat (of_char d) :: 16 word)"
    using h by (simp only: of_nat_of_char)
  moreover have "(of_char c :: nat) < 2 ^ 16" "(of_char d :: nat) < 2 ^ 16"
    using less_trans [OF nat_of_char_less_256 [of c], of "2 ^ 16"]
          less_trans [OF nat_of_char_less_256 [of d], of "2 ^ 16"] by simp_all
  ultimately have "(of_char c :: nat) = of_char d"
    by (simp add: unat_of_nat)
  then show "c = d" by simp
qed simp

lemma lit_eq_iff [simp]: "lit a = lit b \<longleftrightarrow> a = b"
  unfolding lit_def by (simp add: inj_map_eq_map inj_on_def of_char_word_inj)

lemma lit_eq_Nil [simp]: "lit a = [] \<longleftrightarrow> a = []"
  by (simp add: lit_def)

lemma Nil_eq_lit [simp]: "[] = lit a \<longleftrightarrow> a = []"
  by (auto simp: lit_def)

subsection \<open>Trimming and splitting\<close>

lemma dropWhile_ws_id: "s \<noteq> [] \<Longrightarrow> \<not> is_ws (hd s) \<Longrightarrow> dropWhile is_ws s = s"
  by (cases s) simp_all

lemma rtrim_all_ws: "\<forall>c\<in>set s. is_ws c \<Longrightarrow> rtrim s = []"
  by (simp add: rtrim_def)

lemma rtrim_last: "s \<noteq> [] \<Longrightarrow> \<not> is_ws (last s) \<Longrightarrow> rtrim s = s"
  by (cases s rule: rev_cases) (simp_all add: rtrim_def)

lemma rtrim_append:
  "rtrim (xs @ ys) = (if \<forall>c\<in>set ys. is_ws c then rtrim xs else xs @ rtrim ys)"
  by (simp add: rtrim_def dropWhile_append)

lemma rtrim_append_last:
  "xs \<noteq> [] \<Longrightarrow> \<not> is_ws (last xs) \<Longrightarrow> rtrim (xs @ ys) = xs @ rtrim ys"
  by (simp add: rtrim_append rtrim_last rtrim_all_ws)

lemma rtrim_prefix: "\<exists>zs. s = rtrim s @ zs"
proof -
  have "rtrim s @ rev (takeWhile is_ws (rev s))
      = rev (takeWhile is_ws (rev s) @ dropWhile is_ws (rev s))"
    by (simp only: rtrim_def rev_append)
  also have "\<dots> = s"
    by (simp only: takeWhile_dropWhile_id rev_rev_ident)
  finally have "s = rtrim s @ rev (takeWhile is_ws (rev s))" by (rule sym)
  then show ?thesis ..
qed

lemma rtrim_hd: "r = [] \<or> is_ws (hd r) \<Longrightarrow> rtrim r = [] \<or> is_ws (hd (rtrim r))"
proof -
  assume h: "r = [] \<or> is_ws (hd r)"
  obtain zs where z: "r = rtrim r @ zs" using rtrim_prefix by blast
  show ?thesis
  proof (cases "rtrim r = []")
    case False
    then have "hd r = hd (rtrim r)" using z by (metis hd_append2)
    moreover have "r \<noteq> []" using False z by auto
    ultimately show ?thesis using h by simp
  qed simp
qed

lemma split_from_token:
  "\<forall>c\<in>set t. \<not> is_ws c \<Longrightarrow> split_from cur (t @ r) = split_from (cur @ t) r"
  by (induction t arbitrary: cur) simp_all

lemma split_from_token_all:
  "\<forall>c\<in>set t. \<not> is_ws c \<Longrightarrow> split_from cur t = [cur @ t]"
  using split_from_token [of t cur "[]"] by simp

lemma fst_destructure2: "fst (destructure2 (b # xs)) = Some b"
  by (cases xs) simp_all

lemma hd_split_from_token:
  "r = [] \<or> is_ws (hd r) \<Longrightarrow> \<exists>xs. split_from cur r = cur # xs"
  by (cases r) auto

text \<open>
  The shape of a line decides what is parsed: leading whitespace \<open>pre\<close>, a verb \<open>z\<close>
  free of whitespace, and then either nothing but whitespace, or a separator, an argument
  \<open>a\<close> and a rest that is empty or starts with whitespace.
\<close>

lemma trim_layout:
  assumes "\<forall>c\<in>set pre. is_ws c" "t \<noteq> []" "\<forall>c\<in>set t. \<not> is_ws c"
  shows "trim (pre @ t @ r) = t @ rtrim r"
proof -
  have "dropWhile is_ws (pre @ t @ r) = t @ r"
    using assms by (simp add: dropWhile_append2 dropWhile_ws_id)
  moreover have "\<not> is_ws (last t)" using assms by simp
  ultimately show ?thesis using assms by (simp add: trim_def rtrim_append_last)
qed

lemma trim_blank: "\<forall>c\<in>set s. is_ws c \<Longrightarrow> trim s = []"
proof -
  assume "\<forall>c\<in>set s. is_ws c"
  then have "dropWhile is_ws s = []" by (simp only: dropWhile_eq_Nil_conv)
  then have "trim s = rtrim []" by (simp only: trim_def)
  then show ?thesis by (simp add: rtrim_def)
qed

lemma parse_blank: "\<forall>c\<in>set s. is_ws c \<Longrightarrow> destructure2 (split_ws (trim s)) = (Some [], None)"
  by (simp add: trim_blank split_ws_def)

lemma parse_verb:
  assumes "\<forall>c\<in>set pre. is_ws c" "z \<noteq> []" "\<forall>c\<in>set z. \<not> is_ws c" "r = [] \<or> is_ws (hd r)"
  shows "fst (destructure2 (split_ws (trim (pre @ z @ r)))) = Some z"
proof -
  have "split_ws (trim (pre @ z @ r)) = split_from z (rtrim r)"
    using assms by (simp add: trim_layout split_ws_def split_from_token)
  moreover obtain xs where "split_from z (rtrim r) = z # xs"
    using hd_split_from_token [OF rtrim_hd [OF assms(4)]] by blast
  ultimately show ?thesis by (simp add: fst_destructure2)
qed

lemma parse_verb_only:
  assumes "\<forall>c\<in>set pre. is_ws c" "z \<noteq> []" "\<forall>c\<in>set z. \<not> is_ws c" "\<forall>c\<in>set post. is_ws c"
  shows "destructure2 (split_ws (trim (pre @ z @ post))) = (Some z, None)"
  using assms by (simp add: trim_layout split_ws_def split_from_token_all rtrim_all_ws)

lemma parse_verb_arg:
  assumes "\<forall>c\<in>set pre. is_ws c" "z \<noteq> []" "\<forall>c\<in>set z. \<not> is_ws c"
    and "sep \<noteq> []" "\<forall>c\<in>set sep. is_ws c"
    and "a \<noteq> []" "\<forall>c\<in>set a. \<not> is_ws c" "r = [] \<or> is_ws (hd r)"
  shows "destructure2 (split_ws (trim (pre @ z @ sep @ a @ r))) = (Some z, Some a)"
proof -
  obtain c cs where sep: "sep = c # cs" using assms(4) by (cases sep) auto
  have ws: "is_ws c" "\<forall>c\<in>set cs. is_ws c" using assms(5) sep by simp_all
  have "\<not> is_ws (last (sep @ a))" using assms(6,7) by simp
  then have "rtrim ((sep @ a) @ r) = (sep @ a) @ rtrim r"
    using assms(6) by (intro rtrim_append_last) simp_all
  then have "trim (pre @ z @ sep @ a @ r) = z @ sep @ a @ rtrim r"
    using trim_layout [OF assms(1,2,3), of "sep @ a @ r"] by simp
  then have "split_ws (trim (pre @ z @ sep @ a @ r)) = split_from z (c # cs @ a @ rtrim r)"
    using assms(3) sep by (simp add: split_ws_def split_from_token)
  also have "\<dots> = z # split_from [] (a @ rtrim r)"
    using ws assms(6,7) by (simp add: dropWhile_append2 dropWhile_ws_id)
  also have "\<dots> = z # split_from a (rtrim r)"
    using assms(7) by (simp add: split_from_token)
  finally have *: "split_ws (trim (pre @ z @ sep @ a @ r)) = z # split_from a (rtrim r)" .
  obtain xs where "split_from a (rtrim r) = a # xs"
    using hd_split_from_token [OF rtrim_hd [OF assms(8)]] by blast
  with * show ?thesis by simp
qed


lemma lit_space_append: "lit (v @ '' '') @ x = lit v @ 0x20 # x"
  by (simp add: lit_def)

lemma parse_lit_verb_arg:
  assumes "v \<noteq> []" "\<forall>c\<in>set (lit v). \<not> is_ws c" "a \<noteq> []" "\<forall>c\<in>set a. \<not> is_ws c"
  shows "destructure2 (split_ws (trim (lit v @ 0x20 # a))) = (Some (lit v), Some a)"
proof -
  have "is_ws 0x20" by (simp add: is_ws_def)
  then show ?thesis
    using parse_verb_arg [of "[]" "lit v" "[0x20]" a "[]"] assms by simp
qed

lemma parse_lit_verb:
  assumes "v \<noteq> []" "\<forall>c\<in>set (lit v). \<not> is_ws c"
  shows "destructure2 (split_ws (trim (lit v))) = (Some (lit v), None)"
  using parse_verb_only [of "[]" "lit v" "[]"] assms by simp

lemma token_cd: "\<forall>c\<in>set (lit ''cd''). \<not> is_ws c"
  by (simp add: lit_def is_ws_def)

lemma token_view: "\<forall>c\<in>set (lit ''view''). \<not> is_ws c"
  by (simp add: lit_def is_ws_def)

lemma token_telnet: "\<forall>c\<in>set (lit ''telnet''). \<not> is_ws c"
  by (simp add: lit_def is_ws_def)

lemma token_fortune: "\<forall>c\<in>set (lit ''fortune''). \<not> is_ws c"
  by (simp add: lit_def is_ws_def)

lemma token_TABS: "x \<in> set TABS \<Longrightarrow> x \<noteq> [] \<and> (\<forall>c\<in>set x. \<not> is_ws c)"
  by (auto simp: TABS_def lit_def is_ws_def)

lemma token_projectsMeta_keys:
  "k \<in> set projectsMeta_keys \<Longrightarrow> k \<noteq> [] \<and> (\<forall>c\<in>set k. \<not> is_ws c)"
  by (auto simp: projectsMeta_keys_def lit_def is_ws_def)

subsection \<open>The interpreter on a parsed line\<close>

lemma runCommand_parsed:
  "destructure2 (split_ws (trim c)) = (base, arg) \<Longrightarrow>
   runCommand rnd c s =
     (if base = Some (lit ''view'') \<and> arg_in_projectsMeta arg
      then s\<lparr>selectedProject := arg, history := history s @ [\<lparr>cmd = c, output = None\<rparr>]\<rparr>
      else (case dispatch rnd base arg s of (s', out) \<Rightarrow>
              s'\<lparr>history := history s' @ [\<lparr>cmd = c, output = out\<rparr>]\<rparr>))"
  by (simp add: runCommand_def)

subsection \<open>Changing section\<close>

text \<open>
  C3: for every section name \<open>X\<close> of \<open>TABS\<close> and every starting state, the input
  \<open>cd X\<close> sets \<open>cwd\<close> to \<open>X\<close>, sets \<open>selectedProject\<close> and \<open>selectedWorkFile\<close> to
  \<open>null\<close> (also when \<open>X\<close> is the current section), and appends one entry whose
  output is \<open>null\<close>.
\<close>

theorem cd_valid_section:
  assumes "X \<in> set TABS"
  shows "runCommand rnd (lit ''cd '' @ X) s =
     s\<lparr>cwd := X, selectedProject := None, selectedWorkFile := None,
       history := history s @ [\<lparr>cmd = lit ''cd '' @ X, output = None\<rparr>]\<rparr>"
proof -
  have "destructure2 (split_ws (trim (lit ''cd '' @ X))) = (Some (lit ''cd''), Some X)"
    using parse_lit_verb_arg [OF _ token_cd, of X] token_TABS [OF assms]
    by (simp add: lit_space_append [of "''cd''", simplified])
  then show ?thesis
    using assms by (simp add: runCommand_parsed dispatch_def)
qed

theorem cd_valid_section_witness:
  "lit ''projects'' \<in> set TABS \<and>
   runCommand 0 (lit ''cd projects'')
     \<lparr>cwd = lit ''projects'', history = [],
      selectedProject = Some (lit ''airbnb_analysis''), selectedWorkFile = None\<rparr>
   = \<lparr>cwd = lit ''projects'',
      history = [\<lparr>cmd = lit ''cd projects'', output = None\<rparr>],
      selectedProject = None, selectedWorkFile = None\<rparr>"
proof -
  have h: "lit ''projects'' \<in> set TABS" by (simp add: TABS_def)
  have e: "lit ''cd '' @ lit ''projects'' = lit ''cd projects''" by (simp add: lit_def)
  show ?thesis
    using h cd_valid_section [OF h, of 0
      "\<lparr>cwd = lit ''projects'', history = [],
        selectedProject = Some (lit ''airbnb_analysis''), selectedWorkFile = None\<rparr>"]
    by (simp add: e)
qed

subsection \<open>Blank lines\<close>

text \<open>
  C1, as stated (a line of whitespace only leaves the navigation state unchanged and
  appends one entry whose output is absent), fails: the trimmed line is the empty string,
  \<open>split\<close> gives one empty piece, the empty verb matches no \<open>case\<close>, and the
  \<open>default\<close> branch sets the output. The empty line is an instance.
\<close>

theorem blank_line_counterexample:
  "output (last (history (runCommand 0 [] initial_state))) \<noteq> None"
  by (simp add: runCommand_def trim_def rtrim_def split_ws_def dispatch_def initial_state_def)

text \<open>
  C1, amended: for every line made of whitespace only (the empty line included),
  \<open>runCommand\<close> leaves \<open>cwd\<close>, \<open>selectedProject\<close> and \<open>selectedWorkFile\<close> unchanged
  and appends exactly one entry, whose output is \<open>zsh: command not found: \<close> followed
  by the empty verb.
\<close>

theorem blank_line_command_not_found:
  assumes "\<forall>c\<in>set line. is_ws c"
  shows "runCommand rnd line s =
     s\<lparr>history := history s @
       [\<lparr>cmd = line, output = Some (lit ''zsh: command not found: '')\<rparr>]\<rparr>"
  using parse_blank [OF assms]
  by (simp add: runCommand_parsed dispatch_def)

theorem blank_line_command_not_found_witness:
  "list_all is_ws [0x20, 0x09] \<and>
   runCommand 0 [0x20, 0x09] initial_state =
     \<lparr>cwd = lit ''terminal'',
      history = [\<lparr>cmd = [0x20, 0x09], output = Some (lit ''zsh: command not found: '')\<rparr>],
      selectedProject = None, selectedWorkFile = None\<rparr>"
proof -
  have h: "\<forall>c\<in>set [0x20, 0x09]. is_ws c" by (simp add: is_ws_def)
  show ?thesis
    using h blank_line_command_not_found [OF h, of 0 initial_state]
    by (simp add: initial_state_def)
qed

subsection \<open>The scrollback is append-only\<close>

lemma runCommand_history:
  "\<exists>out. history (runCommand rnd c s) = history s @ [\<lparr>cmd = c, output = out\<rparr>]"
proof (cases "destructure2 (split_ws (trim c))")
  case (Pair base arg)
  show ?thesis
  proof (cases "base = Some (lit ''view'') \<and> arg_in_projectsMeta arg")
    case True
    then show ?thesis using Pair by (simp add: runCommand_parsed)
  next
    case False
    obtain s' out where d: "dispatch rnd base arg s = (s', out)"
      by (cases "dispatch rnd base arg s")
    then have "history s' = history s"
      by (auto simp: dispatch_def split: if_splits option.splits)
    then show ?thesis using Pair False d by (simp add: runCommand_parsed)
  qed
qed

lemma runCommands_history:
  "\<exists>es. history (runCommands xs s) = history s @ es \<and> map cmd es = map snd xs"
proof (induction xs arbitrary: s)
  case Nil
  then show ?case by simp
next
  case (Cons x xs)
  obtain rnd c where x: "x = (rnd, c)" by (cases x)
  obtain out where 1: "history (runCommand rnd c s) = history s @ [\<lparr>cmd = c, output = out\<rparr>]"
    using runCommand_history by blast
  obtain es where 2: "history (runCommands xs (runCommand rnd c s))
      = history (runCommand rnd c s) @ es" "map cmd es = map snd xs"
    using Cons.IH by blast
  have "history (runCommands (x # xs) s) = history s @ (\<lparr>cmd = c, output = out\<rparr> # es)"
    using x 1 2 by simp
  moreover have "map cmd (\<lparr>cmd = c, output = out\<rparr> # es) = map snd (x # xs)"
    using x 2 by simp
  ultimately show ?case by blast
qed

text \<open>
  C2: for every prior history and every input line (empty or not), \<open>runCommand\<close> appends
  exactly one entry at the end of \<open>history\<close>, recording that line, and the entries
  already there stay as they were, in their positions. Over any sequence of submitted
  lines the history is the prior history followed by one entry per line, in submission
  order: nothing is edited, removed or reordered.
\<close>

theorem history_append_only:
  "(\<exists>out. history (runCommand rnd c s) = history s @ [\<lparr>cmd = c, output = out\<rparr>])
   \<and> (\<exists>es. history (runCommands xs s) = history s @ es \<and> map cmd es = map snd xs)"
  using runCommand_history runCommands_history by (rule conjI)

theorem history_append_only_witness:
  "(\<exists>out. history (runCommand 0 (lit ''help'')
       \<lparr>cwd = lit ''skills'', history = [\<lparr>cmd = lit ''cd skills'', output = None\<rparr>],
        selectedProject = None, selectedWorkFile = None\<rparr>)
     = [\<lparr>cmd = lit ''cd skills'', output = None\<rparr>, \<lparr>cmd = lit ''help'', output = out\<rparr>])
   \<and> (\<exists>es. history (runCommands [(0, lit ''ls''), (0, lit ''help'')]
       \<lparr>cwd = lit ''skills'', history = [\<lparr>cmd = lit ''cd skills'', output = None\<rparr>],
        selectedProject = None, selectedWorkFile = None\<rparr>)
     = \<lparr>cmd = lit ''cd skills'', output = None\<rparr> # es
     \<and> map cmd es = [lit ''ls'', lit ''help''])"
  using history_append_only [of 0 "lit ''help''"
    "\<lparr>cwd = lit ''skills'', history = [\<lparr>cmd = lit ''cd skills'', output = None\<rparr>],
      selectedProject = None, selectedWorkFile = None\<rparr>"
    "[(0, lit ''ls''), (0, lit ''help'')]"]
  by simp

subsection \<open>The view command\<close>

text \<open>
  C7: for every key \<open>K\<close> of the project registry and every starting state, the input
  \<open>view K\<close> sets \<open>selectedProject\<close> to \<open>K\<close>, leaves \<open>cwd\<close> (and
  \<open>selectedWorkFile\<close>) unchanged, and appends exactly one entry with absent output.
\<close>

theorem view_valid_key:
  assumes "K \<in> set projectsMeta_keys"
  shows "runCommand rnd (lit ''view '' @ K) s =
     s\<lparr>selectedProject := Some K,
       history := history s @ [\<lparr>cmd = lit ''view '' @ K, output = None\<rparr>]\<rparr>"
proof -
  have "destructure2 (split_ws (trim (lit ''view '' @ K))) = (Some (lit ''view''), Some K)"
    using parse_lit_verb_arg [OF _ token_view, of K] token_projectsMeta_keys [OF assms]
    by (simp add: lit_space_append [of "''view''", simplified])
  then show ?thesis
    using assms token_projectsMeta_keys [OF assms]
    by (simp add: runCommand_parsed in_projectsMeta_def)
qed

theorem view_valid_key_witness:
  "lit ''sentiment_analysis'' \<in> set projectsMeta_keys \<and>
   runCommand 0 (lit ''view sentiment_analysis'')
     \<lparr>cwd = lit ''projects'', history = [],
      selectedProject = None, selectedWorkFile = None\<rparr>
   = \<lparr>cwd = lit ''projects'',
      history = [\<lparr>cmd = lit ''view sentiment_analysis'', output = None\<rparr>],
      selectedProject = Some (lit ''sentiment_analysis''), selectedWorkFile = None\<rparr>"
proof -
  have h: "lit ''sentiment_analysis'' \<in> set projectsMeta_keys"
    by (simp add: projectsMeta_keys_def)
  have e: "lit ''view '' @ lit ''sentiment_analysis'' = lit ''view sentiment_analysis''"
    by (simp add: lit_def)
  show ?thesis
    using h view_valid_key [OF h, of 0
      "\<lparr>cwd = lit ''projects'', history = [],
        selectedProject = None, selectedWorkFile = None\<rparr>"]
    by (simp add: e)
qed

text \<open>
  C4, as stated (\<open>view\<close> with an absent or unknown key produces no output text), fails:
  the guarded \<open>if\<close> before the \<open>switch\<close> is not taken, \<open>view\<close> is not among the
  \<open>case\<close> labels, and the \<open>default\<close> branch reports the verb as not found.
\<close>

theorem view_invalid_key_counterexample:
  "output (last (history (runCommand 0 (lit ''view demo'') initial_state))) \<noteq> None"
  by (simp add: runCommand_def trim_def rtrim_def split_ws_def dispatch_def initial_state_def
      lit_def is_ws_def in_projectsMeta_def projectsMeta_keys_def Object_prototype_keys_def)

text \<open>
  C4, amended: for the input \<open>view\<close> without an argument, and for every input
  \<open>view K\<close> where \<open>K\<close> is neither a key of the project registry nor the name of a
  property the registry object inherits from \<open>Object.prototype\<close>, the navigation state
  is unchanged and the appended entry's output is \<open>zsh: command not found: view\<close>.
\<close>

theorem view_invalid_key_command_not_found:
  "runCommand rnd (lit ''view'') s =
     s\<lparr>history := history s @
       [\<lparr>cmd = lit ''view'', output = Some (lit ''zsh: command not found: view'')\<rparr>]\<rparr>
   \<and> (K \<noteq> [] \<and> (\<forall>c\<in>set K. \<not> is_ws c)
        \<and> K \<notin> set projectsMeta_keys \<and> K \<notin> set Object_prototype_keys \<longrightarrow>
      runCommand rnd (lit ''view '' @ K) s =
        s\<lparr>history := history s @
          [\<lparr>cmd = lit ''view '' @ K, output = Some (lit ''zsh: command not found: view'')\<rparr>]\<rparr>)"
proof (intro conjI impI)
  have e: "lit ''zsh: command not found: '' @ lit ''view'' = lit ''zsh: command not found: view''"
    by (simp add: lit_def)
  have "destructure2 (split_ws (trim (lit ''view''))) = (Some (lit ''view''), None)"
    using parse_lit_verb [OF _ token_view] by simp
  then show "runCommand rnd (lit ''view'') s =
     s\<lparr>history := history s @
       [\<lparr>cmd = lit ''view'', output = Some (lit ''zsh: command not found: view'')\<rparr>]\<rparr>"
    by (simp add: runCommand_parsed dispatch_def e)
  assume k: "K \<noteq> [] \<and> (\<forall>c\<in>set K. \<not> is_ws c)
        \<and> K \<notin> set projectsMeta_keys \<and> K \<notin> set Object_prototype_keys"
  then have "destructure2 (split_ws (trim (lit ''view '' @ K))) = (Some (lit ''view''), Some K)"
    using parse_lit_verb_arg [OF _ token_view, of K]
    by (simp add: lit_space_append [of "''view''", simplified])
  then show "runCommand rnd (lit ''view '' @ K) s =
        s\<lparr>history := history s @
          [\<lparr>cmd = lit ''view '' @ K, output = Some (lit ''zsh: command not found: view'')\<rparr>]\<rparr>"
    using k by (simp add: runCommand_parsed dispatch_def in_projectsMeta_def e)
qed

theorem view_invalid_key_command_not_found_witness:
  "lit ''demo'' \<noteq> [] \<and> list_all (\<lambda>c. \<not> is_ws c) (lit ''demo'')
   \<and> lit ''demo'' \<notin> set projectsMeta_keys \<and> lit ''demo'' \<notin> set Object_prototype_keys
   \<and> runCommand 0 (lit ''view'') initial_state =
       \<lparr>cwd = lit ''terminal'',
        history = [\<lparr>cmd = lit ''view'', output = Some (lit ''zsh: command not found: view'')\<rparr>],
        selectedProject = None, selectedWorkFile = None\<rparr>
   \<and> runCommand 0 (lit ''view demo'') initial_state =
       \<lparr>cwd = lit ''terminal'',
        history =
          [\<lparr>cmd = lit ''view demo'', output = Some (lit ''zsh: command not found: view'')\<rparr>],
        selectedProject = None, selectedWorkFile = None\<rparr>"
proof -
  have h: "lit ''demo'' \<noteq> [] \<and> (\<forall>c\<in>set (lit ''demo''). \<not> is_ws c)
     \<and> lit ''demo'' \<notin> set projectsMeta_keys \<and> lit ''demo'' \<notin> set Object_prototype_keys"
    by (simp add: projectsMeta_keys_def Object_prototype_keys_def)
       (simp add: lit_def is_ws_def)
  have e: "lit ''view '' @ lit ''demo'' = lit ''view demo''" by (simp add: lit_def)
  show ?thesis
    using h view_invalid_key_command_not_found [of 0 initial_state "lit ''demo''"]
    by (simp add: initial_state_def e list_all_iff)
qed

text \<open>
  The names left out above: \<open>in\<close> also answers true for an inherited property, so
  \<open>view toString\<close> is taken as a valid selection and stores a string that is no
  project key.
\<close>

lemma view_inherited_property:
  "runCommand rnd (lit ''view toString'') s =
     s\<lparr>selectedProject := Some (lit ''toString''),
       history := history s @ [\<lparr>cmd = lit ''view toString'', output = None\<rparr>]\<rparr>"
proof -
  have t: "lit ''toString'' \<noteq> [] \<and> (\<forall>c\<in>set (lit ''toString''). \<not> is_ws c)"
    by (simp add: lit_def is_ws_def)
  have e: "lit ''view toString'' = lit ''view'' @ 0x20 # lit ''toString''"
    by (simp add: lit_def)
  have "destructure2 (split_ws (trim (lit ''view toString'')))
      = (Some (lit ''view''), Some (lit ''toString''))"
    using parse_lit_verb_arg [OF _ token_view, of "lit ''toString''"] t
    by (simp add: e)
  then show ?thesis
    by (simp add: runCommand_parsed in_projectsMeta_def Object_prototype_keys_def)
qed

subsection \<open>cd with a bad or missing argument\<close>

text \<open>
  C5, as stated (the output is exactly \<open>no such file or directory: X\<close>), fails: the
  template literal starts with \<open>zsh: \<close>.
\<close>

theorem cd_invalid_section_counterexample:
  "output (last (history (runCommand 0 (lit ''cd nowhere'') initial_state)))
     \<noteq> Some (lit ''no such file or directory: nowhere'')"
  by (simp add: runCommand_def trim_def rtrim_def split_ws_def dispatch_def initial_state_def
      lit_def is_ws_def TABS_def)

text \<open>
  C5, amended: for every argument \<open>X\<close> (a non-empty string free of whitespace) that is
  not in \<open>TABS\<close>, the input \<open>cd X\<close> leaves \<open>cwd\<close> and both selections unchanged and
  produces exactly the output \<open>zsh: no such file or directory: X\<close>.
\<close>

theorem cd_invalid_section:
  assumes "X \<noteq> []" "\<forall>c\<in>set X. \<not> is_ws c" "X \<notin> set TABS"
  shows "runCommand rnd (lit ''cd '' @ X) s =
     s\<lparr>history := history s @
       [\<lparr>cmd = lit ''cd '' @ X,
         output = Some (lit ''zsh: no such file or directory: '' @ X)\<rparr>]\<rparr>"
proof -
  have "destructure2 (split_ws (trim (lit ''cd '' @ X))) = (Some (lit ''cd''), Some X)"
    using parse_lit_verb_arg [OF _ token_cd, of X] assms(1,2)
    by (simp add: lit_space_append [of "''cd''", simplified])
  then show ?thesis
    using assms(3) by (simp add: runCommand_parsed dispatch_def)
qed

theorem cd_invalid_section_witness:
  "lit ''nowhere'' \<noteq> [] \<and> list_all (\<lambda>c. \<not> is_ws c) (lit ''nowhere'')
   \<and> lit ''nowhere'' \<notin> set TABS
   \<and> runCommand 0 (lit ''cd nowhere'') initial_state =
       \<lparr>cwd = lit ''terminal'',
        history = [\<lparr>cmd = lit ''cd nowhere'',
                    output = Some (lit ''zsh: no such file or directory: nowhere'')\<rparr>],
        selectedProject = None, selectedWorkFile = None\<rparr>"
proof -
  have h1: "lit ''nowhere'' \<noteq> []" by simp
  have h2: "\<forall>c\<in>set (lit ''nowhere''). \<not> is_ws c" by (simp add: lit_def is_ws_def)
  have h3: "lit ''nowhere'' \<notin> set TABS" by (simp add: TABS_def)
  have e: "lit ''cd '' @ lit ''nowhere'' = lit ''cd nowhere''"
    "lit ''zsh: no such file or directory: '' @ lit ''nowhere''
       = lit ''zsh: no such file or directory: nowhere''"
    by (simp_all add: lit_def)
  show ?thesis
    using h1 h2 h3 cd_invalid_section [OF h1 h2 h3, of 0 initial_state]
    by (simp add: initial_state_def e list_all_iff)
qed

text \<open>
  C10: for the input \<open>cd\<close> with no argument the navigation state is unchanged and the
  appended entry's output is \<open>zsh: no such file or directory: undefined\<close>: the missing
  second element of the destructured array is \<open>undefined\<close>, which the template literal
  prints by name.
\<close>

theorem cd_no_argument:
  "runCommand rnd (lit ''cd'') s =
     s\<lparr>history := history s @
       [\<lparr>cmd = lit ''cd'',
         output = Some (lit ''zsh: no such file or directory: undefined'')\<rparr>]\<rparr>"
proof -
  have e: "lit ''zsh: no such file or directory: '' @ lit ''undefined''
      = lit ''zsh: no such file or directory: undefined''"
    by (simp add: lit_def)
  have "destructure2 (split_ws (trim (lit ''cd''))) = (Some (lit ''cd''), None)"
    using parse_lit_verb [OF _ token_cd] by simp
  then show ?thesis
    by (simp add: runCommand_parsed dispatch_def e)
qed

theorem cd_no_argument_witness:
  "runCommand 0 (lit ''cd'') initial_state =
     \<lparr>cwd = lit ''terminal'',
      history = [\<lparr>cmd = lit ''cd'',
                  output = Some (lit ''zsh: no such file or directory: undefined'')\<rparr>],
      selectedProject = None, selectedWorkFile = None\<rparr>"
  using cd_no_argument [of 0 initial_state] by (simp add: initial_state_def)

subsection \<open>Unknown verbs\<close>

text \<open>
  C6, as stated (the output is exactly \<open>command not found: Z\<close>), fails: the template
  literal starts with \<open>zsh: \<close>.
\<close>

theorem unknown_verb_counterexample:
  "output (last (history (runCommand 0 (lit ''sudo'') initial_state)))
     \<noteq> Some (lit ''command not found: sudo'')"
  by (simp add: runCommand_def trim_def rtrim_def split_ws_def dispatch_def initial_state_def
      lit_def is_ws_def)

text \<open>
  C6, amended: for every verb \<open>Z\<close> (a non-empty string free of whitespace) that is not
  one of \<open>view\<close>, \<open>ls\<close>, \<open>cd\<close>, \<open>help\<close>, \<open>fortune\<close>, \<open>telnet\<close>, every line that
  starts with \<open>Z\<close> (followed by nothing or by whitespace and anything) leaves the
  navigation state unchanged and produces exactly the output
  \<open>zsh: command not found: Z\<close>.
\<close>

theorem unknown_verb:
  assumes "Z \<noteq> []" "\<forall>c\<in>set Z. \<not> is_ws c"
    and "Z \<notin> set [lit ''view'', lit ''ls'', lit ''cd'', lit ''help'', lit ''fortune'',
                  lit ''telnet'']"
    and "r = [] \<or> is_ws (hd r)"
  shows "runCommand rnd (Z @ r) s =
     s\<lparr>history := history s @
       [\<lparr>cmd = Z @ r, output = Some (lit ''zsh: command not found: '' @ Z)\<rparr>]\<rparr>"
proof -
  obtain arg where "destructure2 (split_ws (trim (Z @ r))) = (Some Z, arg)"
    using parse_verb [of "[]" Z r] assms(1,2,4)
    by (cases "destructure2 (split_ws (trim (Z @ r)))") simp
  then show ?thesis
    using assms(3) by (simp add: runCommand_parsed dispatch_def)
qed

theorem unknown_verb_witness:
  "lit ''sudo'' \<noteq> [] \<and> list_all (\<lambda>c. \<not> is_ws c) (lit ''sudo'')
   \<and> lit ''sudo'' \<notin> set [lit ''view'', lit ''ls'', lit ''cd'', lit ''help'', lit ''fortune'',
                  lit ''telnet'']
   \<and> (lit '' ls'' = [] \<or> is_ws (hd (lit '' ls'')))
   \<and> runCommand 0 (lit ''sudo ls'') initial_state =
       \<lparr>cwd = lit ''terminal'',
        history = [\<lparr>cmd = lit ''sudo ls'',
                    output = Some (lit ''zsh: command not found: sudo'')\<rparr>],
        selectedProject = None, selectedWorkFile = None\<rparr>"
proof -
  have h1: "lit ''sudo'' \<noteq> []" by simp
  have h2: "\<forall>c\<in>set (lit ''sudo''). \<not> is_ws c" by (simp add: lit_def is_ws_def)
  have h3: "lit ''sudo'' \<notin> set [lit ''view'', lit ''ls'', lit ''cd'', lit ''help'',
      lit ''fortune'', lit ''telnet'']" by simp
  have h4: "lit '' ls'' = [] \<or> is_ws (hd (lit '' ls''))" by (simp add: lit_def is_ws_def)
  have e: "lit ''sudo'' @ lit '' ls'' = lit ''sudo ls''"
    "lit ''zsh: command not found: '' @ lit ''sudo'' = lit ''zsh: command not found: sudo''"
    by (simp_all add: lit_def)
  show ?thesis
    using h1 h2 h3 h4 unknown_verb [OF h1 h2 h3 h4, of 0 initial_state]
    by (simp add: initial_state_def e list_all_iff)
qed

subsection \<open>telnet\<close>

text \<open>
  C8: for every starting state, \<open>telnet towel.blinkenlights.nl\<close> produces the fixed
  block \<open>towelArt\<close> and leaves the navigation state unchanged, and \<open>telnet me\<close> sets
  \<open>cwd\<close> to \<open>contactme\<close>, clears both selections and produces absent output.
\<close>

theorem telnet_literals:
  "runCommand rnd (lit ''telnet towel.blinkenlights.nl'') s =
     s\<lparr>history := history s @
       [\<lparr>cmd = lit ''telnet towel.blinkenlights.nl'', output = Some towelArt\<rparr>]\<rparr>
   \<and> runCommand rnd (lit ''telnet me'') s =
     s\<lparr>cwd := lit ''contactme'', selectedProject := None, selectedWorkFile := None,
       history := history s @ [\<lparr>cmd = lit ''telnet me'', output = None\<rparr>]\<rparr>"
proof
  have t: "lit ''towel.blinkenlights.nl'' \<noteq> []"
    "\<forall>c\<in>set (lit ''towel.blinkenlights.nl''). \<not> is_ws c"
    by (simp_all add: lit_def is_ws_def)
  have e: "lit ''telnet towel.blinkenlights.nl''
      = lit ''telnet'' @ 0x20 # lit ''towel.blinkenlights.nl''"
    by (simp add: lit_def)
  have "destructure2 (split_ws (trim (lit ''telnet towel.blinkenlights.nl'')))
      = (Some (lit ''telnet''), Some (lit ''towel.blinkenlights.nl''))"
    using parse_lit_verb_arg [OF _ token_telnet t] by (simp add: e)
  then show "runCommand rnd (lit ''telnet towel.blinkenlights.nl'') s =
     s\<lparr>history := history s @
       [\<lparr>cmd = lit ''telnet towel.blinkenlights.nl'', output = Some towelArt\<rparr>]\<rparr>"
    by (simp add: runCommand_parsed dispatch_def)
next
  have t: "lit ''me'' \<noteq> []" "\<forall>c\<in>set (lit ''me''). \<not> is_ws c"
    by (simp_all add: lit_def is_ws_def)
  have e: "lit ''telnet me'' = lit ''telnet'' @ 0x20 # lit ''me''"
    by (simp add: lit_def)
  have "destructure2 (split_ws (trim (lit ''telnet me'')))
      = (Some (lit ''telnet''), Some (lit ''me''))"
    using parse_lit_verb_arg [OF _ token_telnet t] by (simp add: e)
  then show "runCommand rnd (lit ''telnet me'') s =
     s\<lparr>cwd := lit ''contactme'', selectedProject := None, selectedWorkFile := None,
       history := history s @ [\<lparr>cmd = lit ''telnet me'', output = None\<rparr>]\<rparr>"
    by (simp add: runCommand_parsed dispatch_def)
qed

theorem telnet_literals_witness:
  "runCommand 0 (lit ''telnet towel.blinkenlights.nl'') initial_state =
     \<lparr>cwd = lit ''terminal'',
      history = [\<lparr>cmd = lit ''telnet towel.blinkenlights.nl'', output = Some towelArt\<rparr>],
      selectedProject = None, selectedWorkFile = None\<rparr>
   \<and> runCommand 0 (lit ''telnet me'')
       \<lparr>cwd = lit ''projects'', history = [],
        selectedProject = Some (lit ''movie_recommender''),
        selectedWorkFile = Some (lit ''capgemini.txt'')\<rparr> =
     \<lparr>cwd = lit ''contactme'',
      history = [\<lparr>cmd = lit ''telnet me'', output = None\<rparr>],
      selectedProject = None, selectedWorkFile = None\<rparr>"
  using telnet_literals [of 0 initial_state]
    telnet_literals [of 0 "\<lparr>cwd = lit ''projects'', history = [],
        selectedProject = Some (lit ''movie_recommender''),
        selectedWorkFile = Some (lit ''capgemini.txt'')\<rparr>"]
  by (simp add: initial_state_def)

subsection \<open>fortune\<close>

lemma parse_fortune:
  "destructure2 (split_ws (trim (lit ''fortune''))) = (Some (lit ''fortune''), None)"
  using parse_lit_verb [OF _ token_fortune] by simp

lemma runCommand_fortune:
  "runCommand rnd (lit ''fortune'') s =
     s\<lparr>history := history s @ [\<lparr>cmd = lit ''fortune'', output = pick_fortune rnd\<rparr>]\<rparr>"
  using parse_fortune by (simp add: runCommand_parsed dispatch_def)

lemma length_fortunes: "length fortunes = 4"
  by (simp add: fortunes_def)

lemma pick_fortune_in_range:
  assumes "0 \<le> rnd" "rnd < 1"
  shows "\<exists>f\<in>set fortunes. pick_fortune rnd = Some f"
proof -
  let ?i = "\<lfloor>rnd * 4\<rfloor>"
  have ge: "0 \<le> ?i" using assms(1) by simp
  have lt: "?i < 4" using assms(2) by (simp add: floor_less_iff)
  have "pick_fortune rnd = Some (fortunes ! nat ?i)"
    using ge lt by (simp add: pick_fortune_def length_fortunes)
  moreover have "nat ?i < length fortunes"
    unfolding length_fortunes using ge lt by linarith
  ultimately show ?thesis using nth_mem by blast
qed

lemma pick_fortune_index:
  assumes "k < 4"
  shows "pick_fortune (real k / 4) = Some (fortunes ! k)"
  using assms by (simp add: pick_fortune_def length_fortunes)

text \<open>
  C9: for every value \<open>rnd\<close> in \<open>[0, 1)\<close> of the random number, the output of
  \<open>fortune\<close> is a member of \<open>fortunes\<close>; for every entry of \<open>fortunes\<close> there is a
  random number in \<open>[0, 1)\<close> under which \<open>fortune\<close> produces that entry; and
  \<open>fortune\<close> never changes the navigation state.
\<close>

theorem fortune_membership_reachability:
  "(0 \<le> rnd \<and> rnd < 1 \<longrightarrow>
      (\<exists>f\<in>set fortunes. runCommand rnd (lit ''fortune'') s =
         s\<lparr>history := history s @ [\<lparr>cmd = lit ''fortune'', output = Some f\<rparr>]\<rparr>))
   \<and> (\<forall>f\<in>set fortunes. \<exists>r. 0 \<le> r \<and> r < 1 \<and>
        runCommand r (lit ''fortune'') s =
          s\<lparr>history := history s @ [\<lparr>cmd = lit ''fortune'', output = Some f\<rparr>]\<rparr>)"
proof (intro conjI impI ballI)
  assume "0 \<le> rnd \<and> rnd < 1"
  then obtain f where "f \<in> set fortunes" "pick_fortune rnd = Some f"
    using pick_fortune_in_range by blast
  then show "\<exists>f\<in>set fortunes. runCommand rnd (lit ''fortune'') s =
         s\<lparr>history := history s @ [\<lparr>cmd = lit ''fortune'', output = Some f\<rparr>]\<rparr>"
    by (auto simp: runCommand_fortune)
next
  fix f assume "f \<in> set fortunes"
  then obtain k where k: "k < 4" "f = fortunes ! k"
    by (metis in_set_conv_nth length_fortunes)
  have "0 \<le> real k / 4 \<and> real k / 4 < 1" using k(1) by simp
  moreover have "runCommand (real k / 4) (lit ''fortune'') s =
          s\<lparr>history := history s @ [\<lparr>cmd = lit ''fortune'', output = Some f\<rparr>]\<rparr>"
    using k by (simp add: runCommand_fortune pick_fortune_index)
  ultimately show "\<exists>r. 0 \<le> r \<and> r < 1 \<and>
        runCommand r (lit ''fortune'') s =
          s\<lparr>history := history s @ [\<lparr>cmd = lit ''fortune'', output = Some f\<rparr>]\<rparr>"
    by blast
qed

theorem fortune_membership_reachability_witness:
  "0 \<le> (1/2::real) \<and> (1/2::real) < 1 \<and> fortunes ! 3 \<in> set fortunes
   \<and> (\<exists>f\<in>set fortunes. runCommand (1/2) (lit ''fortune'') initial_state =
         \<lparr>cwd = lit ''terminal'',
          history = [\<lparr>cmd = lit ''fortune'', output = Some f\<rparr>],
          selectedProject = None, selectedWorkFile = None\<rparr>)
   \<and> (\<exists>r. 0 \<le> r \<and> r < 1 \<and> runCommand r (lit ''fortune'') initial_state =
         \<lparr>cwd = lit ''terminal'',
          history = [\<lparr>cmd = lit ''fortune'', output = Some (fortunes ! 3)\<rparr>],
          selectedProject = None, selectedWorkFile = None\<rparr>)"
proof -
  note t = fortune_membership_reachability [of "1/2" initial_state]
  have h: "fortunes ! 3 \<in> set fortunes" by (simp add: length_fortunes)
  have a: "\<exists>f\<in>set fortunes. runCommand (1/2) (lit ''fortune'') initial_state =
         initial_state\<lparr>history := history initial_state @
           [\<lparr>cmd = lit ''fortune'', output = Some f\<rparr>]\<rparr>"
    using t by simp
  have b: "\<exists>r. 0 \<le> r \<and> r < 1 \<and> runCommand r (lit ''fortune'') initial_state =
         initial_state\<lparr>history := history initial_state @
           [\<lparr>cmd = lit ''fortune'', output = Some (fortunes ! 3)\<rparr>]\<rparr>"
    using t h by blast
  show ?thesis using h a b by (simp add: initial_state_def)
qed

end
